theory Spec2Isabelle
  imports Main
begin

section \<open>The EOH (Evolution of Hamiltonian) algorithm\<close>

text \<open>
  A shallow embedding of \<^verbatim>\<open>qiskit/aqua/algorithms/many_sample/eoh/eoh.py\<close>.
  The class \<^verbatim>\<open>EOH\<close> validates four scalar parameters, stores two operators in
  canonical form together with an initial-state preparer, composes a circuit from the
  preparer's fragment and the evolution fragment, and evaluates an observable on the
  result of executing that circuit.

  Exceptions are values: every method returns \<open>exn + 'a\<close>, with \<open>Inl\<close> the exception
  raised. The operators, the preparer, the circuit library and the execution backend are
  collaborators outside this file; they are parameters of the model, and every invocation
  of one of them is recorded, in order, in a list of events.
\<close>

subsection \<open>Exceptions\<close>

text \<open>
  \<^verbatim>\<open>AquaError\<close> carries its message. Any other exception a collaborator may raise is
  \<open>OtherError\<close>, identified by its text.
\<close>

datatype exn = AquaError string | OtherError string

subsection \<open>Formatting of integers\<close>

text \<open>
  The messages are built with \<^verbatim>\<open>'...{}...'.format(value)\<close>; for an integer this is
  its decimal representation, with a leading minus sign when negative.
\<close>

fun str_nat :: "nat \<Rightarrow> string" where
  "str_nat n =
     (if n < 10 then [''0123456789'' ! n]
      else str_nat (n div 10) @ [''0123456789'' ! (n mod 10)])"

declare str_nat.simps [simp del]

definition str_int :: "int \<Rightarrow> string" where
  "str_int i = (if i < 0 then CHR ''-'' # str_nat (nat (- i)) else str_nat (nat i))"

subsection \<open>Validation of the scalar parameters\<close>

text \<open>
  \<^verbatim>\<open>EOH._validate_eoh\<close>: four checks in sequence, each raising \<^verbatim>\<open>AquaError\<close>; the
  method returns \<^verbatim>\<open>None\<close> when all pass.
\<close>

definition validate_eoh :: "int \<Rightarrow> int \<Rightarrow> string \<Rightarrow> int \<Rightarrow> exn + unit" where
  "validate_eoh evo_time' num_time_slices' expansion_mode' expansion_order' =
     (if evo_time' < 0 then
        Inl (AquaError (''Evo time value '' @ str_int evo_time'
                        @ ''. Minimum value allowed is 0''))
      else if num_time_slices' < 0 then
        Inl (AquaError (''Num time slices value '' @ str_int num_time_slices'
                        @ ''. Minimum value allowed is 0''))
      else if expansion_mode' \<notin> set [''trotter'', ''suzuki''] then
        Inl (AquaError (''Expansion Mode value '' @ [CHR 0x27] @ expansion_mode' @ [CHR 0x27]
                        @ ''. Values allowed are '' @ [CHR 0x27] @ ''trotter'' @ [CHR 0x27]
                        @ '', '' @ [CHR 0x27] @ ''suzuki'' @ [CHR 0x27]))
      else if expansion_order' < 1 then
        Inl (AquaError (''Expansion order value '' @ str_int expansion_order'
                        @ ''. Minimum value allowed is 1''))
      else Inr ())"

subsection \<open>Collaborators\<close>

text \<open>
  The functions the class calls on objects it does not define. The type variables stand
  for: \<open>'o\<close> an operator as supplied by the caller (\<^verbatim>\<open>BaseOperator\<close>), \<open>'w\<close> an
  operator in canonical form (\<^verbatim>\<open>WeightedPauliOperator\<close>), \<open>'s\<close> an initial-state
  preparer, \<open>'r\<close> a quantum register, \<open>'c\<close> a circuit, \<open>'k\<close> an evaluation circuit,
  \<open>'q\<close> a quantum instance (the execution backend), \<open>'a\<close> the raw result of an
  execution and \<open>'v\<close> a scalar.

  A method that can raise returns a sum. The two properties \<^verbatim>\<open>num_qubits\<close> and
  \<^verbatim>\<open>is_statevector\<close> are plain attribute reads. \<open>iadd\<close> is the circuit's \<^verbatim>\<open>+=\<close>.
  What a collaborator answers depends on the arguments of the call only; for the two
  that return a circuit, the section on circuits as objects drops this.
\<close>

record ('o, 'w, 's, 'r, 'c, 'k, 'q, 'a, 'v) collaborators =
  to_weighted_pauli_operator :: "'o \<Rightarrow> exn + 'w"
  num_qubits :: "'w \<Rightarrow> int"
  QuantumRegister :: "int \<Rightarrow> string \<Rightarrow> exn + 'r"
  initial_state_construct_circuit :: "'s \<Rightarrow> string \<Rightarrow> 'r \<Rightarrow> exn + 'c"
  evolve :: "'w \<Rightarrow> int \<Rightarrow> int \<Rightarrow> 'r \<Rightarrow> string \<Rightarrow> int \<Rightarrow> exn + 'c"
  iadd :: "'c \<Rightarrow> 'c \<Rightarrow> exn + 'c"
  construct_evaluation_circuit :: "'w \<Rightarrow> 'c \<Rightarrow> bool \<Rightarrow> exn + 'k"
  is_statevector :: "'q \<Rightarrow> bool"
  execute :: "'q \<Rightarrow> 'k \<Rightarrow> exn + 'a"
  evaluate_with_result :: "'w \<Rightarrow> 'a \<Rightarrow> bool \<Rightarrow> exn + 'v \<times> 'v"

text \<open>One event per invocation of a collaborator, with the arguments passed.\<close>

datatype ('o, 'w, 's, 'r, 'c, 'k, 'q, 'a) event =
    ToWeightedPauliOperator 'o
  | NewQuantumRegister int string
  | InitialStateConstructCircuit 's string 'r
  | Evolve 'w int int 'r string int
  | IAdd 'c 'c
  | ConstructEvaluationCircuit 'w 'c bool
  | Execute 'q 'k
  | EvaluateWithResult 'w 'a bool

text \<open>
  A computation yields a value or an exception, and the events it caused. \<open>and_then\<close>
  is sequencing: an exception ends the computation, and the events so far are kept.
\<close>

type_synonym ('e, 'b) logged = "(exn + 'b) \<times> 'e list"

definition invoke :: "'e \<Rightarrow> exn + 'b \<Rightarrow> ('e, 'b) logged" where
  "invoke ev r = (r, [ev])"

definition and_then :: "('e, 'b) logged \<Rightarrow> ('b \<Rightarrow> ('e, 'd) logged) \<Rightarrow> ('e, 'd) logged" where
  "and_then m f =
     (case m of
        (Inl e, l) \<Rightarrow> (Inl e, l)
      | (Inr b, l) \<Rightarrow> (case f b of (r, l') \<Rightarrow> (r, l @ l')))"

subsection \<open>The instance\<close>

text \<open>
  The attributes assigned in \<^verbatim>\<open>__init__\<close>. \<open>ret\<close> is the dictionary \<^verbatim>\<open>self._ret\<close>.
  The attribute \<^verbatim>\<open>_quantum_instance\<close> belongs to the base class
  \<^verbatim>\<open>QuantumAlgorithm\<close>, which binds it before \<^verbatim>\<open>_run\<close> is called; it is an argument of
  \<open>run\<close> below.
\<close>

record ('w, 's, 'v) eoh =
  operator :: 'w
  initial_state :: 's
  evo_operator :: 'w
  evo_time :: int
  num_time_slices :: int
  expansion_mode :: string
  expansion_order :: int
  ret :: "string \<rightharpoonup> 'v"

text \<open>
  \<^verbatim>\<open>EOH.__init__\<close>: validation first, then the base class initialiser (which touches
  none of the attributes above), then the assignments in the order of the source. The
  two conversions are the only calls that can raise after validation.
\<close>

definition init ::
  "('o, 'w, 's, 'r, 'c, 'k, 'q, 'a, 'v) collaborators \<Rightarrow> 'o \<Rightarrow> 's \<Rightarrow> 'o \<Rightarrow>
     int \<Rightarrow> int \<Rightarrow> string \<Rightarrow> int \<Rightarrow>
     (('o, 'w, 's, 'r, 'c, 'k, 'q, 'a) event, ('w, 's, 'v) eoh) logged" where
  "init env operator' initial_state' evo_operator'
        evo_time' num_time_slices' expansion_mode' expansion_order' =
     (case validate_eoh evo_time' num_time_slices' expansion_mode' expansion_order' of
        Inl e \<Rightarrow> (Inl e, [])
      | Inr _ \<Rightarrow>
          and_then (invoke (ToWeightedPauliOperator operator')
                           (to_weighted_pauli_operator env operator')) (\<lambda>op.
          and_then (invoke (ToWeightedPauliOperator evo_operator')
                           (to_weighted_pauli_operator env evo_operator')) (\<lambda>evo.
          (Inr \<lparr> operator = op,
                 initial_state = initial_state',
                 evo_operator = evo,
                 evo_time = evo_time',
                 num_time_slices = num_time_slices',
                 expansion_mode = expansion_mode',
                 expansion_order = expansion_order',
                 ret = Map.empty \<rparr>, []))))"

text \<open>
  \<^verbatim>\<open>EOH.construct_circuit\<close>. The statement \<^verbatim>\<open>qc += ...\<close> extends the circuit that the
  preparer returned by the evolution fragment; the extended circuit is the result.
\<close>

definition construct_circuit ::
  "('o, 'w, 's, 'r, 'c, 'k, 'q, 'a, 'v) collaborators \<Rightarrow> ('w, 's, 'v) eoh \<Rightarrow>
     (('o, 'w, 's, 'r, 'c, 'k, 'q, 'a) event, 'c) logged" where
  "construct_circuit env self =
     and_then (invoke (NewQuantumRegister (num_qubits env (operator self)) ''q'')
                      (QuantumRegister env (num_qubits env (operator self)) ''q''))
       (\<lambda>quantum_registers.
     and_then (invoke (InitialStateConstructCircuit (initial_state self) ''circuit''
                         quantum_registers)
                      (initial_state_construct_circuit env (initial_state self) ''circuit''
                         quantum_registers))
       (\<lambda>qc.
     and_then (invoke (Evolve (evo_operator self) (evo_time self) (num_time_slices self)
                         quantum_registers (expansion_mode self) (expansion_order self))
                      (evolve env (evo_operator self) (evo_time self) (num_time_slices self)
                         quantum_registers (expansion_mode self) (expansion_order self)))
       (\<lambda>fragment.
     invoke (IAdd qc fragment) (iadd env qc fragment))))"

text \<open>
  \<^verbatim>\<open>EOH._run\<close>. The two entries of \<^verbatim>\<open>self._ret\<close> are assigned together, after the
  last call has returned; the dictionary returned is \<^verbatim>\<open>self._ret\<close> itself. The mode
  flag is read from the quantum instance at each of its two uses. The result is the value
  or exception, the instance afterwards, and the events.
\<close>

definition run ::
  "('o, 'w, 's, 'r, 'c, 'k, 'q, 'a, 'v) collaborators \<Rightarrow> 'q \<Rightarrow> ('w, 's, 'v) eoh \<Rightarrow>
     (exn + (string \<rightharpoonup> 'v)) \<times> ('w, 's, 'v) eoh \<times> ('o, 'w, 's, 'r, 'c, 'k, 'q, 'a) event list" where
  "run env quantum_instance self =
     (case
        and_then (construct_circuit env self)
          (\<lambda>qc.
        and_then (invoke (ConstructEvaluationCircuit (operator self) qc
                            (is_statevector env quantum_instance))
                         (construct_evaluation_circuit env (operator self) qc
                            (is_statevector env quantum_instance)))
          (\<lambda>qc_with_op.
        and_then (invoke (Execute quantum_instance qc_with_op)
                         (execute env quantum_instance qc_with_op))
          (\<lambda>result.
        invoke (EvaluateWithResult (operator self) result (is_statevector env quantum_instance))
               (evaluate_with_result env (operator self) result
                  (is_statevector env quantum_instance)))))
      of
        (Inl e, log) \<Rightarrow> (Inl e, self, log)
      | (Inr (avg, std_dev), log) \<Rightarrow>
          (let self' = self\<lparr> ret := (ret self)(''avg'' \<mapsto> avg, ''std_dev'' \<mapsto> std_dev) \<rparr>
           in (Inr (ret self'), self', log)))"

subsection \<open>Canonical form of an operator\<close>

text \<open>
  An operator as supplied by a caller is either already in canonical form or in some
  other representation.
\<close>

datatype ('w, 'x) base_operator = Canonical 'w | Other 'x

text \<open>
  Modelled from the spec: \<^verbatim>\<open>op_converter.to_weighted_pauli_operator\<close> is not among
  the sources. The spec requires of it that converting an operator that is already in
  canonical form is a no-op and does not raise; how an operator in another representation
  is converted, and whether that raises, is left to the parameter \<open>convert\<close>.
\<close>

definition op_converter_to_weighted_pauli_operator ::
  "('x \<Rightarrow> exn + 'w) \<Rightarrow> ('w, 'x) base_operator \<Rightarrow> exn + 'w" where
  "op_converter_to_weighted_pauli_operator convert operator' =
     (case operator' of Canonical w \<Rightarrow> Inr w | Other x \<Rightarrow> convert x)"

subsection \<open>Observing a run\<close>

text \<open>The exception, if any, that the invocation recorded by an event ends with.\<close>

fun raised :: "exn + 'b \<Rightarrow> exn option" where
  "raised (Inl e) = Some e"
| "raised (Inr _) = None"

fun failure ::
  "('o, 'w, 's, 'r, 'c, 'k, 'q, 'a, 'v) collaborators \<Rightarrow>
     ('o, 'w, 's, 'r, 'c, 'k, 'q, 'a) event \<Rightarrow> exn option" where
  "failure env (ToWeightedPauliOperator x) = raised (to_weighted_pauli_operator env x)"
| "failure env (NewQuantumRegister n name) = raised (QuantumRegister env n name)"
| "failure env (InitialStateConstructCircuit s name r) =
     raised (initial_state_construct_circuit env s name r)"
| "failure env (Evolve w t n r mode order) = raised (evolve env w t n r mode order)"
| "failure env (IAdd c c') = raised (iadd env c c')"
| "failure env (ConstructEvaluationCircuit w c sv) =
     raised (construct_evaluation_circuit env w c sv)"
| "failure env (Execute q k) = raised (execute env q k)"
| "failure env (EvaluateWithResult w a sv) = raised (evaluate_with_result env w a sv)"

fun is_conversion :: "('o, 'w, 's, 'r, 'c, 'k, 'q, 'a) event \<Rightarrow> bool" where
  "is_conversion (ToWeightedPauliOperator x) = True"
| "is_conversion _ = False"

fun is_execution :: "('o, 'w, 's, 'r, 'c, 'k, 'q, 'a) event \<Rightarrow> bool" where
  "is_execution (Execute q k) = True"
| "is_execution _ = False"

text \<open>The operators an invocation is made on, or passes.\<close>

fun operators_of :: "('o, 'w, 's, 'r, 'c, 'k, 'q, 'a) event \<Rightarrow> 'w list" where
  "operators_of (Evolve w t n r mode order) = [w]"
| "operators_of (ConstructEvaluationCircuit w c sv) = [w]"
| "operators_of (EvaluateWithResult w a sv) = [w]"
| "operators_of _ = []"

text \<open>
  A caller's use of one instance: a sequence of calls to \<^verbatim>\<open>construct_circuit\<close> and to
  \<^verbatim>\<open>run\<close> (with the backend bound for that run). An exception is caught by the
  caller, who goes on with the next call. The result is the replies in order, the
  instance at the end and all events.
\<close>

datatype 'q call = ConstructCircuit | Run 'q

datatype ('c, 'v) reply = Circuit "exn + 'c" | Summary "exn + (string \<rightharpoonup> 'v)"

fun perform ::
  "('o, 'w, 's, 'r, 'c, 'k, 'q, 'a, 'v) collaborators \<Rightarrow> ('w, 's, 'v) eoh \<Rightarrow> 'q call list \<Rightarrow>
     ('c, 'v) reply list \<times> ('w, 's, 'v) eoh \<times> ('o, 'w, 's, 'r, 'c, 'k, 'q, 'a) event list" where
  "perform env self [] = ([], self, [])"
| "perform env self (ConstructCircuit # calls) =
     (case construct_circuit env self of (r, l) \<Rightarrow>
        (case perform env self calls of (replies, self', l') \<Rightarrow>
           (Circuit r # replies, self', l @ l')))"
| "perform env self (Run quantum_instance # calls) =
     (case run env quantum_instance self of (r, self1, l) \<Rightarrow>
        (case perform env self1 calls of (replies, self', l') \<Rightarrow>
           (Summary r # replies, self', l @ l')))"

subsection \<open>Circuits as objects\<close>

text \<open>
  In the source a circuit is an object: the preparer returns one, \<^verbatim>\<open>qc += ...\<close> extends
  that object in place, and \<^verbatim>\<open>construct_circuit\<close> returns it. Above, a circuit is a value
  and \<open>iadd\<close> returns the extended value, which is exact for one call. Whether a later
  call starts from the same prefix depends on whether the preparer hands out a new object
  or one it has handed out before. To tell the two apart, circuits are kept in a store: the
  list of their contents, the address of an object being its position.
\<close>

type_synonym 'c store = "'c list"

definition lookup :: "'c store \<Rightarrow> nat \<Rightarrow> 'c option" where
  "lookup store a = (if a < length store then Some (store ! a) else None)"

text \<open>
  The two collaborators that return a circuit, on objects: they return the address of a
  circuit and may change the store.
\<close>

record ('w, 's, 'r, 'c) circuit_objects =
  prepare :: "'s \<Rightarrow> string \<Rightarrow> 'r \<Rightarrow> 'c store \<Rightarrow> (exn + nat) \<times> 'c store"
  evolve_object ::
    "'w \<Rightarrow> int \<Rightarrow> int \<Rightarrow> 'r \<Rightarrow> string \<Rightarrow> int \<Rightarrow> 'c store \<Rightarrow> (exn + nat) \<times> 'c store"

text \<open>
  \<^verbatim>\<open>+=\<close> on objects: the content of the left object becomes the extended circuit, and
  the left object is the result. An address outside the store does not occur in Python;
  the model then reports an error and leaves the store as it is.
\<close>

definition iadd_object ::
  "('o, 'w, 's, 'r, 'c, 'k, 'q, 'a, 'v) collaborators \<Rightarrow> nat \<Rightarrow> nat \<Rightarrow> 'c store \<Rightarrow>
     (exn + nat) \<times> 'c store" where
  "iadd_object env qc fragment store =
     (case (lookup store qc, lookup store fragment) of
        (Some c, Some f) \<Rightarrow>
          (case iadd env c f of
             Inl e \<Rightarrow> (Inl e, store)
           | Inr c' \<Rightarrow> (Inr qc, store[qc := c']))
      | _ \<Rightarrow> (Inl (OtherError ''no such object''), store))"

text \<open>\<^verbatim>\<open>EOH.construct_circuit\<close> once more, on circuit objects.\<close>

definition construct_circuit_objects ::
  "('o, 'w, 's, 'r, 'c, 'k, 'q, 'a, 'v) collaborators \<Rightarrow> ('w, 's, 'r, 'c) circuit_objects \<Rightarrow>
     ('w, 's, 'v) eoh \<Rightarrow> 'c store \<Rightarrow> (exn + nat) \<times> 'c store" where
  "construct_circuit_objects env objects self store =
     (case QuantumRegister env (num_qubits env (operator self)) ''q'' of
        Inl e \<Rightarrow> (Inl e, store)
      | Inr quantum_registers \<Rightarrow>
          (case prepare objects (initial_state self) ''circuit'' quantum_registers store of
             (Inl e, store1) \<Rightarrow> (Inl e, store1)
           | (Inr qc, store1) \<Rightarrow>
               (case evolve_object objects (evo_operator self) (evo_time self)
                       (num_time_slices self) quantum_registers (expansion_mode self)
                       (expansion_order self) store1 of
                  (Inl e, store2) \<Rightarrow> (Inl e, store2)
                | (Inr fragment, store2) \<Rightarrow> iadd_object env qc fragment store2)))"

text \<open>The circuit a caller finds behind the result of a call, in a given store.\<close>

definition circuit_at :: "exn + nat \<Rightarrow> 'c store \<Rightarrow> exn + 'c option" where
  "circuit_at r store = (case r of Inl e \<Rightarrow> Inl e | Inr a \<Rightarrow> Inr (lookup store a))"

text \<open>
  Two calls in a row with nothing in between: the first circuit as it was returned, the
  second as it was returned, and the first again after the second call.
\<close>

definition construct_circuit_twice ::
  "('o, 'w, 's, 'r, 'c, 'k, 'q, 'a, 'v) collaborators \<Rightarrow> ('w, 's, 'r, 'c) circuit_objects \<Rightarrow>
     ('w, 's, 'v) eoh \<Rightarrow> 'c store \<Rightarrow>
     (exn + 'c option) \<times> (exn + 'c option) \<times> (exn + 'c option)" where
  "construct_circuit_twice env objects self store =
     (case construct_circuit_objects env objects self store of (r1, store1) \<Rightarrow>
        (case construct_circuit_objects env objects self store1 of (r2, store2) \<Rightarrow>
           (circuit_at r1 store1, circuit_at r2 store2, circuit_at r1 store2)))"

text \<open>
  Collaborators that put the circuit of the corresponding collaborator above into a new
  object at every call.
\<close>

definition new_object :: "exn + 'c \<Rightarrow> 'c store \<Rightarrow> (exn + nat) \<times> 'c store" where
  "new_object r store =
     (case r of Inl e \<Rightarrow> (Inl e, store) | Inr c \<Rightarrow> (Inr (length store), store @ [c]))"

definition fresh_objects ::
  "('o, 'w, 's, 'r, 'c, 'k, 'q, 'a, 'v) collaborators \<Rightarrow> ('w, 's, 'r, 'c) circuit_objects" where
  "fresh_objects env =
     \<lparr> prepare = (\<lambda>s name r. new_object (initial_state_construct_circuit env s name r)),
       evolve_object = (\<lambda>w t n r mode order. new_object (evolve env w t n r mode order)) \<rparr>"

text \<open>
  The same, except that the preparer keeps one circuit object, at address \<open>a\<close>, and
  returns it at every call.
\<close>

definition keeping_objects ::
  "('o, 'w, 's, 'r, 'c, 'k, 'q, 'a, 'v) collaborators \<Rightarrow> nat \<Rightarrow> ('w, 's, 'r, 'c) circuit_objects" where
  "keeping_objects env a = (fresh_objects env)\<lparr> prepare := (\<lambda>s name r store. (Inr a, store)) \<rparr>"

subsection \<open>Example collaborators\<close>

text \<open>
  A small concrete set of collaborators, on which the model can be evaluated. A canonical
  operator is represented by its qubit count, a register by its size and name, a circuit
  by the list of its gate labels. The preparer \<open>None\<close> is unusable. The evolution
  routine rejects a register whose size is not the operator's qubit count.
\<close>

definition example_collaborators ::
  "((int, nat) base_operator, int, string option, int \<times> string, string list,
    string list \<times> bool, bool, nat, int) collaborators" where
  "example_collaborators =
     \<lparr> to_weighted_pauli_operator =
         op_converter_to_weighted_pauli_operator
           (\<lambda>x. if x = 0 then Inl (AquaError ''Unsupported type'') else Inr (int x)),
       num_qubits = (\<lambda>w. w),
       QuantumRegister =
         (\<lambda>n name. if n < 0 then Inl (OtherError ''CircuitError'') else Inr (n, name)),
       initial_state_construct_circuit =
         (\<lambda>s name r. case s of None \<Rightarrow> Inl (OtherError ''AttributeError'')
                              | Some label \<Rightarrow> Inr [label]),
       evolve =
         (\<lambda>w t n r mode order.
            if fst r \<noteq> w then Inl (OtherError ''size mismatch'')
            else Inr (replicate (nat n) mode)),
       iadd = (\<lambda>c c'. Inr (c @ c')),
       construct_evaluation_circuit = (\<lambda>w c sv. Inr (c, sv)),
       is_statevector = (\<lambda>q. q),
       execute =
         (\<lambda>q k. if snd k = q then Inr (length (fst k)) else Inl (OtherError ''mode mismatch'')),
       evaluate_with_result = (\<lambda>w a sv. Inr (int a, if sv then 0 else 1)) \<rparr>"

section \<open>Basic facts\<close>

subsection \<open>Validation and construction\<close>

lemma validate_eoh_passes:
  "(validate_eoh t n m k = Inr u) =
     (0 \<le> t \<and> 0 \<le> n \<and> m \<in> {''trotter'', ''suzuki''} \<and> 1 \<le> k)"
  by (auto simp: validate_eoh_def)

lemma validate_eoh_raises:
  "(\<exists>e. validate_eoh t n m k = Inl e) =
     (t < 0 \<or> n < 0 \<or> m \<notin> {''trotter'', ''suzuki''} \<or> k < 1)"
  by (auto simp: validate_eoh_def)

lemma validate_eoh_AquaError:
  "validate_eoh t n m k = Inl e \<Longrightarrow> \<exists>msg. e = AquaError msg"
  by (auto simp: validate_eoh_def split: if_splits)

lemma init_invalid:
  "validate_eoh t n m k = Inl e \<Longrightarrow> init env op st evo t n m k = (Inl e, [])"
  by (simp add: init_def)

lemma init_valid:
  "validate_eoh t n m k = Inr u \<Longrightarrow>
   init env op st evo t n m k =
     (case to_weighted_pauli_operator env op of
        Inl e \<Rightarrow> (Inl e, [ToWeightedPauliOperator op])
      | Inr w \<Rightarrow>
          (case to_weighted_pauli_operator env evo of
             Inl e \<Rightarrow> (Inl e, [ToWeightedPauliOperator op, ToWeightedPauliOperator evo])
           | Inr w' \<Rightarrow>
               (Inr \<lparr> operator = w, initial_state = st, evo_operator = w', evo_time = t,
                      num_time_slices = n, expansion_mode = m, expansion_order = k,
                      ret = Map.empty \<rparr>,
                [ToWeightedPauliOperator op, ToWeightedPauliOperator evo])))"
  by (simp add: init_def and_then_def invoke_def split: sum.splits)

lemma init_success:
  assumes "init env op st evo t n m k = (Inr self, l0)"
  shows "validate_eoh t n m k = Inr ()
       \<and> (\<exists>w w'. to_weighted_pauli_operator env op = Inr w
             \<and> to_weighted_pauli_operator env evo = Inr w'
             \<and> self = \<lparr> operator = w, initial_state = st, evo_operator = w', evo_time = t,
                        num_time_slices = n, expansion_mode = m, expansion_order = k,
                        ret = Map.empty \<rparr>)
       \<and> l0 = [ToWeightedPauliOperator op, ToWeightedPauliOperator evo]"
proof (cases "validate_eoh t n m k")
  case (Inl e)
  from init_invalid [OF Inl, of env op st evo] assms show ?thesis by simp
next
  case (Inr u)
  from init_valid [OF Inr, of env op st evo] assms Inr show ?thesis
    by (auto split: sum.splits)
qed

lemmas example_simps =
  example_collaborators_def op_converter_to_weighted_pauli_operator_def
  validate_eoh_def init_def construct_circuit_def run_def and_then_def invoke_def

subsection \<open>Circuit construction and running\<close>

lemma construct_circuit_unfold:
  "construct_circuit env self =
     (case QuantumRegister env (num_qubits env (operator self)) ''q'' of
        Inl e \<Rightarrow> (Inl e, [NewQuantumRegister (num_qubits env (operator self)) ''q''])
      | Inr regs \<Rightarrow>
          (case initial_state_construct_circuit env (initial_state self) ''circuit'' regs of
             Inl e \<Rightarrow>
               (Inl e, [NewQuantumRegister (num_qubits env (operator self)) ''q'',
                        InitialStateConstructCircuit (initial_state self) ''circuit'' regs])
           | Inr qc \<Rightarrow>
               (case evolve env (evo_operator self) (evo_time self) (num_time_slices self) regs
                       (expansion_mode self) (expansion_order self) of
                  Inl e \<Rightarrow>
                    (Inl e, [NewQuantumRegister (num_qubits env (operator self)) ''q'',
                             InitialStateConstructCircuit (initial_state self) ''circuit'' regs,
                             Evolve (evo_operator self) (evo_time self) (num_time_slices self)
                               regs (expansion_mode self) (expansion_order self)])
                | Inr fragment \<Rightarrow>
                    (iadd env qc fragment,
                     [NewQuantumRegister (num_qubits env (operator self)) ''q'',
                      InitialStateConstructCircuit (initial_state self) ''circuit'' regs,
                      Evolve (evo_operator self) (evo_time self) (num_time_slices self)
                        regs (expansion_mode self) (expansion_order self),
                      IAdd qc fragment]))))"
  by (simp add: construct_circuit_def and_then_def invoke_def split: sum.splits)

lemma run_unfold:
  "run env qi self =
     (case construct_circuit env self of
        (Inl e, lc) \<Rightarrow> (Inl e, self, lc)
      | (Inr qc, lc) \<Rightarrow>
          (case construct_evaluation_circuit env (operator self) qc (is_statevector env qi) of
             Inl e \<Rightarrow>
               (Inl e, self,
                lc @ [ConstructEvaluationCircuit (operator self) qc (is_statevector env qi)])
           | Inr qc_with_op \<Rightarrow>
               (case execute env qi qc_with_op of
                  Inl e \<Rightarrow>
                    (Inl e, self,
                     lc @ [ConstructEvaluationCircuit (operator self) qc (is_statevector env qi),
                           Execute qi qc_with_op])
                | Inr result \<Rightarrow>
                    (case evaluate_with_result env (operator self) result
                            (is_statevector env qi) of
                       Inl e \<Rightarrow>
                         (Inl e, self,
                          lc @ [ConstructEvaluationCircuit (operator self) qc
                                  (is_statevector env qi),
                                Execute qi qc_with_op,
                                EvaluateWithResult (operator self) result
                                  (is_statevector env qi)])
                     | Inr (avg, std_dev) \<Rightarrow>
                         (Inr ((ret self)(''avg'' \<mapsto> avg, ''std_dev'' \<mapsto> std_dev)),
                          self\<lparr> ret := (ret self)(''avg'' \<mapsto> avg, ''std_dev'' \<mapsto> std_dev) \<rparr>,
                          lc @ [ConstructEvaluationCircuit (operator self) qc
                                  (is_statevector env qi),
                                Execute qi qc_with_op,
                                EvaluateWithResult (operator self) result
                                  (is_statevector env qi)])))))"
  by (simp add: run_def and_then_def invoke_def Let_def split: sum.splits prod.splits)

lemma raised_Some: "(raised r = Some e) = (r = Inl e)"
  by (cases r) auto

lemma construct_circuit_nonempty: "construct_circuit env self = (r, l) \<Longrightarrow> l \<noteq> []"
  by (auto simp: construct_circuit_unfold split: sum.splits)

lemma construct_circuit_no_execution:
  "construct_circuit env self = (r, l) \<Longrightarrow> filter is_execution l = []"
  by (auto simp: construct_circuit_unfold split: sum.splits)

lemma construct_circuit_before_last:
  "construct_circuit env self = (r, l) \<Longrightarrow> ev \<in> set (butlast l) \<Longrightarrow> failure env ev = None"
  by (auto simp: construct_circuit_unfold split: sum.splits)

lemma construct_circuit_success:
  "construct_circuit env self = (Inr qc, l) \<Longrightarrow> ev \<in> set l \<Longrightarrow> failure env ev = None"
  by (auto simp: construct_circuit_unfold split: sum.splits)

lemma construct_circuit_last:
  "construct_circuit env self = (r, l) \<Longrightarrow> (r = Inl e) = (failure env (last l) = Some e)"
  by (auto simp: construct_circuit_unfold raised_Some split: sum.splits)

lemma construct_circuit_events:
  "construct_circuit env self = (r, l) \<Longrightarrow> ev \<in> set l \<Longrightarrow>
     \<not> is_conversion ev \<and> set (operators_of ev) \<subseteq> {operator self, evo_operator self}"
  by (auto simp: construct_circuit_unfold split: sum.splits)

lemma run_nonempty: "run env qi self = (r, self', l) \<Longrightarrow> l \<noteq> []"
  by (auto simp: run_unfold split: sum.splits prod.splits dest: construct_circuit_nonempty)

lemma run_raises_unchanged: "run env qi self = (Inl e, self', l) \<Longrightarrow> self' = self"
  by (auto simp: run_unfold split: sum.splits prod.splits)

lemma run_before_last:
  assumes "run env qi self = (r, self', l)" and "ev \<in> set (butlast l)"
  shows "failure env ev = None"
proof (cases "construct_circuit env self")
  case (Pair rc lc)
  show ?thesis
  proof (cases rc)
    case (Inl e)
    with Pair assms show ?thesis
      by (auto simp: run_unfold dest: construct_circuit_before_last)
  next
    case (Inr qc)
    with Pair have ok: "\<And>ev. ev \<in> set lc \<Longrightarrow> failure env ev = None"
      by (auto dest: construct_circuit_success)
    from Inr Pair assms show ?thesis
      by (auto simp: run_unfold butlast_append ok split: sum.splits prod.splits if_splits)
  qed
qed

lemma run_last:
  assumes "run env qi self = (r, self', l)"
  shows "(r = Inl e) = (failure env (last l) = Some e)"
proof (cases "construct_circuit env self")
  case (Pair rc lc)
  show ?thesis
  proof (cases rc)
    case (Inl e')
    with Pair assms have "r = Inl e'" "l = lc"
      by (auto simp: run_unfold)
    with Pair Inl construct_circuit_last [of env self rc lc e] show ?thesis
      by auto
  next
    case (Inr qc)
    with Pair assms show ?thesis
      by (auto simp: run_unfold raised_Some split: sum.splits prod.splits)
  qed
qed

lemma run_events:
  assumes rn: "run env qi self = (r, self', l)" and ev: "ev \<in> set l"
  shows "\<not> is_conversion ev \<and> set (operators_of ev) \<subseteq> {operator self, evo_operator self}"
proof (cases "construct_circuit env self")
  case (Pair rc lc)
  from Pair rn obtain rest where l: "l = lc @ rest"
    and rest: "set rest \<subseteq>
      {ev. \<exists>qc k a. ev = ConstructEvaluationCircuit (operator self) qc (is_statevector env qi)
             \<or> ev = Execute qi k
             \<or> ev = EvaluateWithResult (operator self) a (is_statevector env qi)}"
    by (auto simp: run_unfold split: sum.splits prod.splits)
  from ev l have "ev \<in> set lc \<or> ev \<in> set rest" by simp
  then show ?thesis
  proof
    assume "ev \<in> set lc"
    with Pair show ?thesis by (rule construct_circuit_events)
  next
    assume "ev \<in> set rest"
    with rest show ?thesis by auto
  qed
qed

lemma run_keeps_attributes:
  "run env qi self = (r, self', l) \<Longrightarrow> self' = self\<lparr> ret := ret self' \<rparr>"
  by (auto simp: run_unfold split: sum.splits prod.splits)

lemma run_ret_keys:
  "run env qi self = (r, self', l) \<Longrightarrow>
     dom (ret self') \<subseteq> dom (ret self) \<union> {''avg'', ''std_dev''}"
  by (auto simp: run_unfold split: sum.splits prod.splits if_splits)

lemma run_instance:
  assumes "run env qi self = (r, self', l)"
  shows "self' = self\<lparr> ret := ret self' \<rparr>
       \<and> (dom (ret self) \<subseteq> {''avg'', ''std_dev''} \<longrightarrow> dom (ret self') \<subseteq> {''avg'', ''std_dev''})"
  using run_keeps_attributes [OF assms] run_ret_keys [OF assms] by blast

lemma init_before_last:
  assumes "init env op st evo t n m k = (r, l)" and "ev \<in> set (butlast l)"
  shows "failure env ev = None"
proof (cases "validate_eoh t n m k")
  case (Inl e)
  from init_invalid [OF Inl, of env op st evo] assms show ?thesis by simp
next
  case (Inr u)
  from init_valid [OF Inr, of env op st evo] assms show ?thesis
    by (auto split: sum.splits)
qed

lemma init_last:
  assumes "init env op st evo t n m k = (r, l)"
  shows "(r = Inl e) =
       (if l = [] then validate_eoh t n m k = Inl e else failure env (last l) = Some e)"
proof (cases "validate_eoh t n m k")
  case (Inl e')
  from init_invalid [OF Inl, of env op st evo] assms Inl show ?thesis by auto
next
  case (Inr u)
  from init_valid [OF Inr, of env op st evo] assms Inr show ?thesis
    by (auto split: sum.splits)
qed

subsection \<open>Sequences of calls\<close>

lemma perform_instance:
  "perform env self calls = (replies, self', l) \<Longrightarrow>
     self' = self\<lparr> ret := ret self' \<rparr>
       \<and> (dom (ret self) \<subseteq> {''avg'', ''std_dev''} \<longrightarrow> dom (ret self') \<subseteq> {''avg'', ''std_dev''})"
proof (induction env self calls arbitrary: replies self' l rule: perform.induct)
  case (1 env self)
  then show ?case by simp
next
  case (2 env self calls)
  then show ?case by (auto split: prod.splits)
next
  case (3 env self quantum_instance calls)
  obtain r self1 l1 where rn: "run env quantum_instance self = (r, self1, l1)"
    by (cases "run env quantum_instance self") auto
  obtain rs self2 l2 where pf: "perform env self1 calls = (rs, self2, l2)"
    by (cases "perform env self1 calls") auto
  from "3.prems" rn pf have eq: "self' = self2" by simp
  from "3.IH" [OF rn [symmetric] refl pf]
  have ih: "self2 = self1\<lparr> ret := ret self2 \<rparr>"
    "dom (ret self1) \<subseteq> {''avg'', ''std_dev''} \<longrightarrow> dom (ret self2) \<subseteq> {''avg'', ''std_dev''}"
    by simp_all
  from run_instance [OF rn]
  have st: "self1 = self\<lparr> ret := ret self1 \<rparr>"
    "dom (ret self) \<subseteq> {''avg'', ''std_dev''} \<longrightarrow> dom (ret self1) \<subseteq> {''avg'', ''std_dev''}"
    by simp_all
  have "self2 = self\<lparr> ret := ret self2 \<rparr>"
    by (subst ih(1), subst st(1)) simp
  with ih(2) st(2) eq show ?case by blast
qed

lemma perform_events:
  "perform env self calls = (replies, self', l) \<Longrightarrow> ev \<in> set l \<Longrightarrow>
     \<not> is_conversion ev \<and> set (operators_of ev) \<subseteq> {operator self, evo_operator self}"
proof (induction env self calls arbitrary: replies self' l rule: perform.induct)
  case (1 env self)
  then show ?case by simp
next
  case (2 env self calls)
  obtain r l1 where cc: "construct_circuit env self = (r, l1)"
    by (cases "construct_circuit env self") auto
  obtain rs self2 l2 where pf: "perform env self calls = (rs, self2, l2)"
    by (cases "perform env self calls") auto
  from "2.prems" cc pf have "ev \<in> set l1 \<or> ev \<in> set l2" by auto
  then show ?case
  proof
    assume "ev \<in> set l1"
    with cc show ?thesis by (rule construct_circuit_events)
  next
    assume "ev \<in> set l2"
    with "2.IH" [OF cc [symmetric] pf] show ?thesis .
  qed
next
  case (3 env self quantum_instance calls)
  obtain r self1 l1 where rn: "run env quantum_instance self = (r, self1, l1)"
    by (cases "run env quantum_instance self") auto
  obtain rs self2 l2 where pf: "perform env self1 calls = (rs, self2, l2)"
    by (cases "perform env self1 calls") auto
  from run_instance [OF rn] have st: "self1 = self\<lparr> ret := ret self1 \<rparr>" by simp
  have same: "operator self1 = operator self" "evo_operator self1 = evo_operator self"
    by (subst st, simp)+
  from "3.prems" rn pf have "ev \<in> set l1 \<or> ev \<in> set l2" by auto
  then show ?case
  proof
    assume "ev \<in> set l1"
    with rn show ?thesis by (rule run_events)
  next
    assume "ev \<in> set l2"
    with "3.IH" [OF rn [symmetric] refl pf] same show ?thesis by simp
  qed
qed

lemma canonical_conversion:
  "op_converter_to_weighted_pauli_operator convert (Canonical w) = Inr w"
  by (simp add: op_converter_to_weighted_pauli_operator_def)

lemma two_keys:
  assumes "dom m \<subseteq> {''avg'', ''std_dev''}"
  shows "m(''avg'' \<mapsto> a, ''std_dev'' \<mapsto> s) = [''avg'' \<mapsto> a, ''std_dev'' \<mapsto> s]"
proof
  fix x
  from assms have "x \<noteq> ''avg'' \<Longrightarrow> x \<noteq> ''std_dev'' \<Longrightarrow> m x = None"
    by (auto simp: dom_def)
  then show "(m(''avg'' \<mapsto> a, ''std_dev'' \<mapsto> s)) x = [''avg'' \<mapsto> a, ''std_dev'' \<mapsto> s] x"
    by simp
qed

subsection \<open>Circuit objects\<close>

lemmas object_simps =
  construct_circuit_objects_def construct_circuit_twice_def iadd_object_def circuit_at_def
  lookup_def new_object_def fresh_objects_def keeping_objects_def

lemma construct_circuit_objects_fresh:
  "construct_circuit_objects env (fresh_objects env) self store =
     (case QuantumRegister env (num_qubits env (operator self)) ''q'' of
        Inl e \<Rightarrow> (Inl e, store)
      | Inr regs \<Rightarrow>
          (case initial_state_construct_circuit env (initial_state self) ''circuit'' regs of
             Inl e \<Rightarrow> (Inl e, store)
           | Inr p \<Rightarrow>
               (case evolve env (evo_operator self) (evo_time self) (num_time_slices self) regs
                       (expansion_mode self) (expansion_order self) of
                  Inl e \<Rightarrow> (Inl e, store @ [p])
                | Inr f \<Rightarrow>
                    (case iadd env p f of
                       Inl e \<Rightarrow> (Inl e, store @ [p, f])
                     | Inr c \<Rightarrow> (Inr (length store), store @ [c, f])))))"
  by (simp add: construct_circuit_objects_def fresh_objects_def new_object_def iadd_object_def
        lookup_def nth_append split: sum.splits)

lemma construct_circuit_result:
  "fst (construct_circuit env self) =
     (case QuantumRegister env (num_qubits env (operator self)) ''q'' of
        Inl e \<Rightarrow> Inl e
      | Inr regs \<Rightarrow>
          (case initial_state_construct_circuit env (initial_state self) ''circuit'' regs of
             Inl e \<Rightarrow> Inl e
           | Inr p \<Rightarrow>
               (case evolve env (evo_operator self) (evo_time self) (num_time_slices self) regs
                       (expansion_mode self) (expansion_order self) of
                  Inl e \<Rightarrow> Inl e
                | Inr f \<Rightarrow> iadd env p f)))"
  by (simp add: construct_circuit_unfold split: sum.splits)

lemma construct_circuit_twice_fresh:
  "construct_circuit_twice env (fresh_objects env) self store =
     (case fst (construct_circuit env self) of
        Inl e \<Rightarrow> (Inl e, Inl e, Inl e)
      | Inr c \<Rightarrow> (Inr (Some c), Inr (Some c), Inr (Some c)))"
  by (simp add: construct_circuit_twice_def construct_circuit_objects_fresh
        construct_circuit_result circuit_at_def lookup_def nth_append split: sum.splits)

lemma construct_circuit_objects_in_place:
  assumes reg: "QuantumRegister env (num_qubits env (operator self)) ''q'' = Inr regs"
      and pre: "prepare objects (initial_state self) ''circuit'' regs store = (Inr qc, store1)"
      and suf: "evolve_object objects (evo_operator self) (evo_time self) (num_time_slices self)
                  regs (expansion_mode self) (expansion_order self) store1
                = (Inr fragment, store2)"
      and p: "lookup store2 qc = Some p"
      and f: "lookup store2 fragment = Some f"
  shows "construct_circuit_objects env objects self store =
           (case iadd env p f of
              Inl e \<Rightarrow> (Inl e, store2)
            | Inr c \<Rightarrow> (Inr qc, store2[qc := c]))"
  using assms by (simp add: construct_circuit_objects_def iadd_object_def)

section \<open>Construction\<close>

text \<open>
  Claim C1. Construction raises a validation error if and only if \<open>evo_time < 0\<close>, or
  \<open>num_time_slices < 0\<close>, or \<open>expansion_mode\<close> is neither \<open>trotter\<close> nor \<open>suzuki\<close>,
  or \<open>expansion_order < 1\<close>. A validation error is an exception of \<open>validate_eoh\<close>,
  raised by \<open>init\<close> before any collaborator has been invoked; it is an
  \<^verbatim>\<open>AquaError\<close>. For every other
  combination of the four parameters, the boundaries \<open>num_time_slices = 0\<close> and
  \<open>expansion_order = 1\<close> included, construction succeeds when the two conversions do.
\<close>

theorem construction_validation:
  "((\<exists>e. validate_eoh t n m k = Inl e \<and> init env op st evo t n m k = (Inl e, []))
      \<longleftrightarrow> (t < 0 \<or> n < 0 \<or> m \<notin> {''trotter'', ''suzuki''} \<or> k < 1))
   \<and> ((\<exists>msg. init env op st evo t n m k = (Inl (AquaError msg), []))
      \<longleftrightarrow> (t < 0 \<or> n < 0 \<or> m \<notin> {''trotter'', ''suzuki''} \<or> k < 1))
   \<and> (0 \<le> t \<and> 0 \<le> n \<and> m \<in> {''trotter'', ''suzuki''} \<and> 1 \<le> k
        \<and> to_weighted_pauli_operator env op = Inr w
        \<and> to_weighted_pauli_operator env evo = Inr w'
      \<longrightarrow> fst (init env op st evo t n m k) =
            Inr \<lparr> operator = w, initial_state = st, evo_operator = w', evo_time = t,
                   num_time_slices = n, expansion_mode = m, expansion_order = k,
                   ret = Map.empty \<rparr>)"
proof (intro conjI impI)
  show "(\<exists>e. validate_eoh t n m k = Inl e \<and> init env op st evo t n m k = (Inl e, []))
      \<longleftrightarrow> (t < 0 \<or> n < 0 \<or> m \<notin> {''trotter'', ''suzuki''} \<or> k < 1)"
    using validate_eoh_raises [of t n m k] init_invalid [of t n m k _ env op st evo] by blast
next
  show "(\<exists>msg. init env op st evo t n m k = (Inl (AquaError msg), []))
      \<longleftrightarrow> (t < 0 \<or> n < 0 \<or> m \<notin> {''trotter'', ''suzuki''} \<or> k < 1)"
  proof
    assume "\<exists>msg. init env op st evo t n m k = (Inl (AquaError msg), [])"
    then obtain msg where i: "init env op st evo t n m k = (Inl (AquaError msg), [])" ..
    from init_last [OF i, of "AquaError msg"] have "validate_eoh t n m k = Inl (AquaError msg)"
      by simp
    then show "t < 0 \<or> n < 0 \<or> m \<notin> {''trotter'', ''suzuki''} \<or> k < 1"
      using validate_eoh_raises [of t n m k] by blast
  next
    assume "t < 0 \<or> n < 0 \<or> m \<notin> {''trotter'', ''suzuki''} \<or> k < 1"
    then obtain e where v: "validate_eoh t n m k = Inl e"
      using validate_eoh_raises [of t n m k] by blast
    from validate_eoh_AquaError [OF v] obtain msg where "e = AquaError msg" ..
    with init_invalid [OF v, of env op st evo]
    show "\<exists>msg. init env op st evo t n m k = (Inl (AquaError msg), [])" by blast
  qed
next
  assume a: "0 \<le> t \<and> 0 \<le> n \<and> m \<in> {''trotter'', ''suzuki''} \<and> 1 \<le> k
        \<and> to_weighted_pauli_operator env op = Inr w
        \<and> to_weighted_pauli_operator env evo = Inr w'"
  then have "validate_eoh t n m k = Inr ()"
    by (simp add: validate_eoh_passes)
  from init_valid [OF this, of env op st evo] a
  show "fst (init env op st evo t n m k) =
            Inr \<lparr> operator = w, initial_state = st, evo_operator = w', evo_time = t,
                   num_time_slices = n, expansion_mode = m, expansion_order = k,
                   ret = Map.empty \<rparr>"
    by simp
qed

text \<open>
  At the boundary values \<open>evo_time = 0\<close>, \<open>num_time_slices = 0\<close>,
  \<open>expansion_order = 1\<close> construction succeeds; with \<open>expansion_order = 0\<close> it raises
  in validation.
\<close>

theorem construction_validation_witness:
  "to_weighted_pauli_operator example_collaborators (Canonical 2) = Inr 2
   \<and> to_weighted_pauli_operator example_collaborators (Other 3) = Inr 3
   \<and> fst (init example_collaborators (Canonical 2) (Some ''zero'') (Other 3) 0 0 ''suzuki'' 1)
       = Inr \<lparr> operator = 2, initial_state = Some ''zero'', evo_operator = 3, evo_time = 0,
               num_time_slices = 0, expansion_mode = ''suzuki'', expansion_order = 1,
               ret = Map.empty \<rparr>
   \<and> (\<exists>msg. init example_collaborators (Canonical 2) (Some ''zero'') (Other 3) 1 1 ''trotter'' 0
              = (Inl (AquaError msg), []))"
proof -
  have w: "to_weighted_pauli_operator example_collaborators (Canonical 2) = Inr 2"
    and w': "to_weighted_pauli_operator example_collaborators (Other 3) = Inr 3"
    by (simp_all add: example_collaborators_def op_converter_to_weighted_pauli_operator_def)
  from w w'
    construction_validation [of 0 0 "''suzuki''" 1 example_collaborators "Canonical 2"
      "Some ''zero''" "Other 3" 2 3]
    construction_validation [of 1 1 "''trotter''" 0 example_collaborators "Canonical 2"
      "Some ''zero''" "Other 3" 2 3]
  show ?thesis by simp
qed

section \<open>Circuit construction\<close>

text \<open>
  Claim C2, amended. On every instance that construction returned, also after calls on
  it, \<open>construct_circuit\<close> allocates a register named \<open>q\<close> whose size is the qubit
  count of the (converted) observable operator, asks the preparer for its circuit over
  that register, asks the (converted) evolution operator for its fragment over the same
  register with exactly the \<open>evo_time\<close>, \<open>num_time_slices\<close>, \<open>expansion_mode\<close> and
  \<open>expansion_order\<close> given at construction, and returns the preparer's circuit extended
  by the evolution fragment. On circuit objects, what it returns is the object that the
  preparer returned, extended in place. When the preparer and the evolution routine put
  their circuits into new objects at every call, two calls in a row return equal
  circuits, equal to the circuit of the event model, and the second call leaves the first
  circuit as it was. That two calls always return equal circuits does not hold, as the
  counterexample after the next theorem shows.
\<close>

theorem construct_circuit_composition:
  assumes it: "init env op st evo t n m k = (Inr self0, l0)"
      and pf: "perform env self0 calls = (replies, self, l)"
  shows "to_weighted_pauli_operator env op = Inr (operator self)
       \<and> to_weighted_pauli_operator env evo = Inr (evo_operator self)
       \<and> (QuantumRegister env (num_qubits env (operator self)) ''q'' = Inr regs
            \<and> initial_state_construct_circuit env st ''circuit'' regs = Inr prefix
            \<and> evolve env (evo_operator self) t n regs m k = Inr suffix
          \<longrightarrow> construct_circuit env self =
                (iadd env prefix suffix,
                 [NewQuantumRegister (num_qubits env (operator self)) ''q'',
                  InitialStateConstructCircuit st ''circuit'' regs,
                  Evolve (evo_operator self) t n regs m k,
                  IAdd prefix suffix]))
       \<and> (QuantumRegister env (num_qubits env (operator self)) ''q'' = Inr regs
            \<and> prepare objects st ''circuit'' regs store = (Inr qc, store')
            \<and> evolve_object objects (evo_operator self) t n regs m k store'
                = (Inr fragment, store'')
            \<and> lookup store'' qc = Some p
            \<and> lookup store'' fragment = Some f
          \<longrightarrow> construct_circuit_objects env objects self store =
                (case iadd env p f of
                   Inl e \<Rightarrow> (Inl e, store'')
                 | Inr c \<Rightarrow> (Inr qc, store''[qc := c])))
       \<and> construct_circuit_twice env (fresh_objects env) self store =
           (case fst (construct_circuit env self) of
              Inl e \<Rightarrow> (Inl e, Inl e, Inl e)
            | Inr c \<Rightarrow> (Inr (Some c), Inr (Some c), Inr (Some c)))"
proof -
  from init_success [OF it] obtain w w' where
    w: "to_weighted_pauli_operator env op = Inr w"
    and w': "to_weighted_pauli_operator env evo = Inr w'"
    and self0: "self0 = \<lparr> operator = w, initial_state = st, evo_operator = w', evo_time = t,
                          num_time_slices = n, expansion_mode = m, expansion_order = k,
                          ret = Map.empty \<rparr>"
    by blast
  from perform_instance [OF pf] have st: "self = self0\<lparr> ret := ret self \<rparr>" by simp
  have fields: "operator self = w" "initial_state self = st" "evo_operator self = w'"
    "evo_time self = t" "num_time_slices self = n" "expansion_mode self = m"
    "expansion_order self = k"
    by (subst st, simp add: self0)+
  have a: "to_weighted_pauli_operator env op = Inr (operator self)"
    and b: "to_weighted_pauli_operator env evo = Inr (evo_operator self)"
    using w w' fields by simp_all
  have c: "QuantumRegister env (num_qubits env (operator self)) ''q'' = Inr regs
            \<and> initial_state_construct_circuit env st ''circuit'' regs = Inr prefix
            \<and> evolve env (evo_operator self) t n regs m k = Inr suffix
          \<longrightarrow> construct_circuit env self =
                (iadd env prefix suffix,
                 [NewQuantumRegister (num_qubits env (operator self)) ''q'',
                  InitialStateConstructCircuit st ''circuit'' regs,
                  Evolve (evo_operator self) t n regs m k,
                  IAdd prefix suffix])"
    by (simp add: construct_circuit_unfold fields)
  have d: "QuantumRegister env (num_qubits env (operator self)) ''q'' = Inr regs
            \<and> prepare objects st ''circuit'' regs store = (Inr qc, store')
            \<and> evolve_object objects (evo_operator self) t n regs m k store'
                = (Inr fragment, store'')
            \<and> lookup store'' qc = Some p
            \<and> lookup store'' fragment = Some f
          \<longrightarrow> construct_circuit_objects env objects self store =
                (case iadd env p f of
                   Inl e \<Rightarrow> (Inl e, store'')
                 | Inr c \<Rightarrow> (Inr qc, store''[qc := c]))"
    using construct_circuit_objects_in_place [of env self regs objects store qc store'
        fragment store'' p f]
    by (simp add: fields)
  note e = construct_circuit_twice_fresh [of env self store]
  from a b c d e show ?thesis by blast
qed

text \<open>
  An instance that holds the summary of a run, with the example collaborators and new
  circuit objects at every call.
\<close>

theorem construct_circuit_composition_witness:
  "init example_collaborators (Canonical 2) (Some ''zero'') (Other 2) 1 2 ''trotter'' 1 =
     (Inr \<lparr> operator = 2, initial_state = Some ''zero'', evo_operator = 2, evo_time = 1,
             num_time_slices = 2, expansion_mode = ''trotter'', expansion_order = 1,
             ret = Map.empty \<rparr>,
      [ToWeightedPauliOperator (Canonical 2), ToWeightedPauliOperator (Other 2)])
   \<and> fst (snd (perform example_collaborators
        \<lparr> operator = 2, initial_state = Some ''zero'', evo_operator = 2, evo_time = 1,
          num_time_slices = 2, expansion_mode = ''trotter'', expansion_order = 1,
          ret = Map.empty \<rparr> [Run True])) =
       \<lparr> operator = 2, initial_state = Some ''zero'', evo_operator = 2, evo_time = 1,
         num_time_slices = 2, expansion_mode = ''trotter'', expansion_order = 1,
         ret = [''avg'' \<mapsto> 3, ''std_dev'' \<mapsto> 0] \<rparr>
   \<and> construct_circuit example_collaborators
       \<lparr> operator = 2, initial_state = Some ''zero'', evo_operator = 2, evo_time = 1,
         num_time_slices = 2, expansion_mode = ''trotter'', expansion_order = 1,
         ret = [''avg'' \<mapsto> 3, ''std_dev'' \<mapsto> 0] \<rparr> =
     (Inr [''zero'', ''trotter'', ''trotter''],
      [NewQuantumRegister 2 ''q'',
       InitialStateConstructCircuit (Some ''zero'') ''circuit'' (2, ''q''),
       Evolve 2 1 2 (2, ''q'') ''trotter'' 1,
       IAdd [''zero''] [''trotter'', ''trotter'']])
   \<and> construct_circuit_objects example_collaborators (fresh_objects example_collaborators)
       \<lparr> operator = 2, initial_state = Some ''zero'', evo_operator = 2, evo_time = 1,
         num_time_slices = 2, expansion_mode = ''trotter'', expansion_order = 1,
         ret = [''avg'' \<mapsto> 3, ''std_dev'' \<mapsto> 0] \<rparr> [] =
     (Inr 0, [[''zero'', ''trotter'', ''trotter''], [''trotter'', ''trotter'']])
   \<and> construct_circuit_twice example_collaborators (fresh_objects example_collaborators)
       \<lparr> operator = 2, initial_state = Some ''zero'', evo_operator = 2, evo_time = 1,
         num_time_slices = 2, expansion_mode = ''trotter'', expansion_order = 1,
         ret = [''avg'' \<mapsto> 3, ''std_dev'' \<mapsto> 0] \<rparr> [] =
     (Inr (Some [''zero'', ''trotter'', ''trotter'']),
      Inr (Some [''zero'', ''trotter'', ''trotter'']),
      Inr (Some [''zero'', ''trotter'', ''trotter'']))"
proof -
  let ?fresh = "\<lparr> operator = 2, initial_state = Some ''zero'', evo_operator = 2, evo_time = 1,
         num_time_slices = 2, expansion_mode = ''trotter'', expansion_order = 1,
         ret = Map.empty \<rparr> :: (int, string option, int) eoh"
  let ?after = "?fresh\<lparr> ret := [''avg'' \<mapsto> 3, ''std_dev'' \<mapsto> 0] \<rparr>"
  have it: "init example_collaborators (Canonical 2) (Some ''zero'') (Other 2) 1 2 ''trotter'' 1 =
     (Inr ?fresh, [ToWeightedPauliOperator (Canonical 2), ToWeightedPauliOperator (Other 2)])"
    by (simp add: example_simps)
  obtain replies l where
    pf: "perform example_collaborators ?fresh [Run True] = (replies, ?after, l)"
    by (simp add: example_simps numeral_2_eq_2)
  have reg: "QuantumRegister example_collaborators
               (num_qubits example_collaborators (operator ?after)) ''q'' = Inr (2, ''q'')"
    and pre: "initial_state_construct_circuit example_collaborators (Some ''zero'') ''circuit''
               (2, ''q'') = Inr [''zero'']"
    and suf: "evolve example_collaborators (evo_operator ?after) 1 2 (2, ''q'') ''trotter'' 1 =
               Inr [''trotter'', ''trotter'']"
    and cat: "iadd example_collaborators [''zero''] [''trotter'', ''trotter''] =
               Inr [''zero'', ''trotter'', ''trotter'']"
    and nq: "num_qubits example_collaborators 2 = 2"
    by (simp_all add: example_collaborators_def numeral_2_eq_2)
  have pre': "prepare (fresh_objects example_collaborators) (Some ''zero'') ''circuit''
                (2, ''q'') [] = (Inr 0, [[''zero'']])"
    and suf': "evolve_object (fresh_objects example_collaborators) (evo_operator ?after) 1 2
                (2, ''q'') ''trotter'' 1 [[''zero'']]
               = (Inr 1, [[''zero''], [''trotter'', ''trotter'']])"
    and p: "lookup [[''zero''], [''trotter'', ''trotter'']] 0 = Some [''zero'']"
    and f: "lookup [[''zero''], [''trotter'', ''trotter'']] 1 = Some [''trotter'', ''trotter'']"
    by (simp_all add: fresh_objects_def new_object_def lookup_def example_collaborators_def
          numeral_2_eq_2)
  from construct_circuit_composition
         [OF it pf, where regs = "(2, ''q'')" and prefix = "[''zero'']"
            and suffix = "[''trotter'', ''trotter'']"
            and objects = "fresh_objects example_collaborators" and store = "[]"
            and qc = 0 and store' = "[[''zero'']]" and fragment = 1
            and store'' = "[[''zero''], [''trotter'', ''trotter'']]"
            and p = "[''zero'']" and f = "[''trotter'', ''trotter'']"]
       reg pre suf cat nq pre' suf' p f it pf
  show ?thesis by simp
qed

text \<open>
  Claim C2 as stated fails. With a preparer that returns the same circuit object at every
  call, here the object at address 0 with the one gate \<open>zero\<close>, the first call extends
  that object by the evolution step and the second call extends it again: the second
  circuit is not the first, and the first circuit has changed under the caller's hands.
\<close>

theorem construct_circuit_repeat_counterexample:
  "init example_collaborators (Canonical 2) (Some ''zero'') (Canonical 2) 1 1 ''trotter'' 1 =
     (Inr \<lparr> operator = 2, initial_state = Some ''zero'', evo_operator = 2, evo_time = 1,
             num_time_slices = 1, expansion_mode = ''trotter'', expansion_order = 1,
             ret = Map.empty \<rparr>,
      [ToWeightedPauliOperator (Canonical 2), ToWeightedPauliOperator (Canonical 2)])
   \<and> construct_circuit_twice example_collaborators (keeping_objects example_collaborators 0)
       \<lparr> operator = 2, initial_state = Some ''zero'', evo_operator = 2, evo_time = 1,
         num_time_slices = 1, expansion_mode = ''trotter'', expansion_order = 1,
         ret = Map.empty \<rparr> [[''zero'']] =
     (Inr (Some [''zero'', ''trotter'']),
      Inr (Some [''zero'', ''trotter'', ''trotter'']),
      Inr (Some [''zero'', ''trotter'', ''trotter'']))"
  by (simp add: example_simps object_simps)

section \<open>Running\<close>

text \<open>
  Claim C3. A run first does what \<open>construct_circuit\<close> does, then builds the evaluation
  circuit from the observable operator, then executes it on the backend, then evaluates
  the result with the observable operator, and last stores the pair under \<open>avg\<close> and
  \<open>std_dev\<close> and returns the stored dictionary. This holds on every instance, whatever
  its dictionary holds: when all four steps return, the run returns, having made exactly
  these invocations, one execution among them. When one of the steps raises, the run
  ends there with that exception and the instance is as it was, so no partial result is
  stored. No run makes more than one execution.
\<close>

theorem run_sequence:
  assumes cc: "construct_circuit env self = (rc, lc)"
      and rn: "run env qi self = (rr, self', lr)"
  shows "(\<exists>rest. lr = lc @ rest)
       \<and> length (filter is_execution lr) \<le> 1
       \<and> (rc = Inl e \<longrightarrow> rr = Inl e \<and> self' = self \<and> lr = lc)
       \<and> (rc = Inr qc
            \<and> construct_evaluation_circuit env (operator self) qc (is_statevector env qi) = Inl e
          \<longrightarrow> rr = Inl e \<and> self' = self
            \<and> lr = lc @ [ConstructEvaluationCircuit (operator self) qc (is_statevector env qi)])
       \<and> (rc = Inr qc
            \<and> construct_evaluation_circuit env (operator self) qc (is_statevector env qi)
                = Inr qc_with_op
            \<and> execute env qi qc_with_op = Inl e
          \<longrightarrow> rr = Inl e \<and> self' = self
            \<and> lr = lc @ [ConstructEvaluationCircuit (operator self) qc (is_statevector env qi),
                         Execute qi qc_with_op])
       \<and> (rc = Inr qc
            \<and> construct_evaluation_circuit env (operator self) qc (is_statevector env qi)
                = Inr qc_with_op
            \<and> execute env qi qc_with_op = Inr result
            \<and> evaluate_with_result env (operator self) result (is_statevector env qi) = Inl e
          \<longrightarrow> rr = Inl e \<and> self' = self
            \<and> lr = lc @ [ConstructEvaluationCircuit (operator self) qc (is_statevector env qi),
                         Execute qi qc_with_op,
                         EvaluateWithResult (operator self) result (is_statevector env qi)])
       \<and> (rc = Inr qc
            \<and> construct_evaluation_circuit env (operator self) qc (is_statevector env qi)
                = Inr qc_with_op
            \<and> execute env qi qc_with_op = Inr result
            \<and> evaluate_with_result env (operator self) result (is_statevector env qi)
                = Inr (avg, std_dev)
          \<longrightarrow> rr = Inr ((ret self)(''avg'' \<mapsto> avg, ''std_dev'' \<mapsto> std_dev))
            \<and> self' = self\<lparr> ret := (ret self)(''avg'' \<mapsto> avg, ''std_dev'' \<mapsto> std_dev) \<rparr>
            \<and> lr = lc @ [ConstructEvaluationCircuit (operator self) qc (is_statevector env qi),
                         Execute qi qc_with_op,
                         EvaluateWithResult (operator self) result (is_statevector env qi)]
            \<and> length (filter is_execution lr) = 1)"
proof -
  have ne: "filter is_execution lc = []"
    using cc by (rule construct_circuit_no_execution)
  show ?thesis
  proof (cases rc)
    case (Inl e')
    with cc rn ne show ?thesis by (auto simp: run_unfold)
  next
    case (Inr qc')
    with cc rn ne show ?thesis
      by (auto simp: run_unfold split: sum.splits prod.splits)
  qed
qed

text \<open>
  A run in statevector mode on an instance that holds the summary of an earlier run.
\<close>

theorem run_sequence_witness:
  "construct_circuit example_collaborators
      \<lparr> operator = 2, initial_state = Some ''zero'', evo_operator = 2, evo_time = 1,
        num_time_slices = 2, expansion_mode = ''trotter'', expansion_order = 1,
        ret = [''avg'' \<mapsto> 3, ''std_dev'' \<mapsto> 1] \<rparr> =
     (Inr [''zero'', ''trotter'', ''trotter''],
      [NewQuantumRegister 2 ''q'',
       InitialStateConstructCircuit (Some ''zero'') ''circuit'' (2, ''q''),
       Evolve 2 1 2 (2, ''q'') ''trotter'' 1,
       IAdd [''zero''] [''trotter'', ''trotter'']])
   \<and> construct_evaluation_circuit example_collaborators 2 [''zero'', ''trotter'', ''trotter'']
        (is_statevector example_collaborators True)
       = Inr ([''zero'', ''trotter'', ''trotter''], True)
   \<and> execute example_collaborators True ([''zero'', ''trotter'', ''trotter''], True) = Inr 3
   \<and> evaluate_with_result example_collaborators 2 3 (is_statevector example_collaborators True)
       = Inr (3, 0)
   \<and> run example_collaborators True
      \<lparr> operator = 2, initial_state = Some ''zero'', evo_operator = 2, evo_time = 1,
        num_time_slices = 2, expansion_mode = ''trotter'', expansion_order = 1,
        ret = [''avg'' \<mapsto> 3, ''std_dev'' \<mapsto> 1] \<rparr> =
     (Inr [''avg'' \<mapsto> 3, ''std_dev'' \<mapsto> 0],
      \<lparr> operator = 2, initial_state = Some ''zero'', evo_operator = 2, evo_time = 1,
        num_time_slices = 2, expansion_mode = ''trotter'', expansion_order = 1,
        ret = [''avg'' \<mapsto> 3, ''std_dev'' \<mapsto> 0] \<rparr>,
      [NewQuantumRegister 2 ''q'',
       InitialStateConstructCircuit (Some ''zero'') ''circuit'' (2, ''q''),
       Evolve 2 1 2 (2, ''q'') ''trotter'' 1,
       IAdd [''zero''] [''trotter'', ''trotter''],
       ConstructEvaluationCircuit 2 [''zero'', ''trotter'', ''trotter''] True,
       Execute True ([''zero'', ''trotter'', ''trotter''], True),
       EvaluateWithResult 2 3 True])"
proof -
  let ?inst = "\<lparr> operator = 2, initial_state = Some ''zero'', evo_operator = 2, evo_time = 1,
         num_time_slices = 2, expansion_mode = ''trotter'', expansion_order = 1,
         ret = [''avg'' \<mapsto> 3, ''std_dev'' \<mapsto> 1] \<rparr> :: (int, string option, int) eoh"
  let ?lc = "[NewQuantumRegister 2 ''q'',
       InitialStateConstructCircuit (Some ''zero'') ''circuit'' (2, ''q''),
       Evolve 2 1 2 (2, ''q'') ''trotter'' 1,
       IAdd [''zero''] [''trotter'', ''trotter'']]"
  have cc: "construct_circuit example_collaborators ?inst =
              (Inr [''zero'', ''trotter'', ''trotter''], ?lc)"
    by (simp add: example_simps numeral_2_eq_2)
  have ev: "construct_evaluation_circuit example_collaborators (operator ?inst)
              [''zero'', ''trotter'', ''trotter''] (is_statevector example_collaborators True)
            = Inr ([''zero'', ''trotter'', ''trotter''], True)"
    and ex: "execute example_collaborators True ([''zero'', ''trotter'', ''trotter''], True)
            = Inr 3"
    and rs: "evaluate_with_result example_collaborators (operator ?inst) 3
              (is_statevector example_collaborators True) = Inr (3, 0)"
    by (simp_all add: example_collaborators_def)
  obtain rr self' lr where rn: "run example_collaborators True ?inst = (rr, self', lr)"
    by (cases "run example_collaborators True ?inst") auto
  have two: "[''avg'' \<mapsto> 3 :: int, ''std_dev'' \<mapsto> 1, ''avg'' \<mapsto> 3, ''std_dev'' \<mapsto> 0]
               = [''avg'' \<mapsto> 3, ''std_dev'' \<mapsto> 0]"
    by (rule two_keys) simp
  from run_sequence [OF cc rn, where qc = "[''zero'', ''trotter'', ''trotter'']"
         and qc_with_op = "([''zero'', ''trotter'', ''trotter''], True)"
         and result = 3 and avg = 3 and std_dev = 0] ev ex rs
  have "rr = Inr [''avg'' \<mapsto> 3, ''std_dev'' \<mapsto> 0]"
    and "self' = ?inst\<lparr> ret := [''avg'' \<mapsto> 3, ''std_dev'' \<mapsto> 0] \<rparr>"
    and "lr = ?lc @ [ConstructEvaluationCircuit 2 [''zero'', ''trotter'', ''trotter''] True,
                     Execute True ([''zero'', ''trotter'', ''trotter''], True),
                     EvaluateWithResult 2 3 True]"
    by (simp_all add: two example_collaborators_def)
  with rn cc ev ex rs show ?thesis by simp
qed



section \<open>Order of validation\<close>

text \<open>
  Claim C5. The four checks come first in construction and in the order \<open>evo_time\<close>,
  \<open>num_time_slices\<close>, \<open>expansion_mode\<close>, \<open>expansion_order\<close>: the exception raised is
  that of the first check that fails, whatever the later parameters are. Its message
  names the parameter and contains the rejected value. When a check fails no collaborator
  has been invoked (no operator has been converted) and no instance results.
\<close>

theorem validation_order:
  "(t < 0 \<longrightarrow>
      init env op st evo t n m k =
        (Inl (AquaError (''Evo time value '' @ str_int t @ ''. Minimum value allowed is 0'')),
         []))
   \<and> (0 \<le> t \<and> n < 0 \<longrightarrow>
      init env op st evo t n m k =
        (Inl (AquaError (''Num time slices value '' @ str_int n
                         @ ''. Minimum value allowed is 0'')),
         []))
   \<and> (0 \<le> t \<and> 0 \<le> n \<and> m \<notin> {''trotter'', ''suzuki''} \<longrightarrow>
      init env op st evo t n m k =
        (Inl (AquaError (''Expansion Mode value '' @ [CHR 0x27] @ m @ [CHR 0x27]
                         @ ''. Values allowed are '' @ [CHR 0x27] @ ''trotter'' @ [CHR 0x27]
                         @ '', '' @ [CHR 0x27] @ ''suzuki'' @ [CHR 0x27])),
         []))
   \<and> (0 \<le> t \<and> 0 \<le> n \<and> m \<in> {''trotter'', ''suzuki''} \<and> k < 1 \<longrightarrow>
      init env op st evo t n m k =
        (Inl (AquaError (''Expansion order value '' @ str_int k
                         @ ''. Minimum value allowed is 1'')),
         []))"
  by (auto simp: init_def validate_eoh_def)

text \<open>
  Four constructions, each with one invalid parameter fewer than the one before: the
  message is always that of the first invalid parameter.
\<close>

theorem validation_order_witness:
  "init example_collaborators (Other 0) None (Other 0) (- 3) (- 1) ''euler'' 0 =
     (Inl (AquaError ''Evo time value -3. Minimum value allowed is 0''), [])
   \<and> init example_collaborators (Other 0) None (Other 0) 0 (- 1) ''euler'' 0 =
     (Inl (AquaError ''Num time slices value -1. Minimum value allowed is 0''), [])
   \<and> init example_collaborators (Other 0) None (Other 0) 0 0 ''euler'' 0 =
     (Inl (AquaError (''Expansion Mode value '' @ [CHR 0x27] @ ''euler'' @ [CHR 0x27]
                      @ ''. Values allowed are '' @ [CHR 0x27] @ ''trotter'' @ [CHR 0x27]
                      @ '', '' @ [CHR 0x27] @ ''suzuki'' @ [CHR 0x27])), [])
   \<and> init example_collaborators (Other 0) None (Other 0) 0 0 ''suzuki'' 0 =
     (Inl (AquaError ''Expansion order value 0. Minimum value allowed is 1''), [])"
  using validation_order [of "- 3" example_collaborators "Other 0" None "Other 0" "- 1" "''euler''" 0]
    validation_order [of 0 example_collaborators "Other 0" None "Other 0" "- 1" "''euler''" 0]
    validation_order [of 0 example_collaborators "Other 0" None "Other 0" 0 "''euler''" 0]
    validation_order [of 0 example_collaborators "Other 0" None "Other 0" 0 "''suzuki''" 0]
  by (simp add: str_int_def str_nat.simps)

section \<open>Canonical operators\<close>

text \<open>
  Claim C6. A successful construction converts the observable operator and the
  evolution operator to canonical form, once each and in this order, and stores the
  converted operators. Whatever calls to \<open>construct_circuit\<close> and \<open>run\<close> follow, none
  of them converts an operator again, every invocation they make on an operator is made
  on one of the two stored ones, and the stored operators stay the same. Converting an
  operator that is already canonical returns it and does not raise; this part is about
  the conversion routine, which is modelled from the spec.
\<close>

theorem operators_canonical_once:
  assumes cv: "to_weighted_pauli_operator env = op_converter_to_weighted_pauli_operator convert"
      and it: "init env op st evo t n m k = (Inr self, l0)"
      and pf: "perform env self calls = (replies, self', l)"
  shows "l0 = [ToWeightedPauliOperator op, ToWeightedPauliOperator evo]
       \<and> to_weighted_pauli_operator env op = Inr (operator self)
       \<and> to_weighted_pauli_operator env evo = Inr (evo_operator self)
       \<and> (\<forall>w. to_weighted_pauli_operator env (Canonical w) = Inr w)
       \<and> (\<forall>ev \<in> set l. \<not> is_conversion ev
             \<and> set (operators_of ev) \<subseteq> {operator self, evo_operator self})
       \<and> operator self' = operator self \<and> evo_operator self' = evo_operator self"
proof -
  from init_success [OF it] have
    l0: "l0 = [ToWeightedPauliOperator op, ToWeightedPauliOperator evo]"
    and w: "to_weighted_pauli_operator env op = Inr (operator self)"
    and w': "to_weighted_pauli_operator env evo = Inr (evo_operator self)"
    by auto
  have idem: "\<forall>w. to_weighted_pauli_operator env (Canonical w) = Inr w"
    by (simp add: cv canonical_conversion)
  have evs: "\<forall>ev \<in> set l. \<not> is_conversion ev
             \<and> set (operators_of ev) \<subseteq> {operator self, evo_operator self}"
    by (rule ballI) (rule perform_events [OF pf])
  from perform_instance [OF pf] have st: "self' = self\<lparr> ret := ret self' \<rparr>" by simp
  have same: "operator self' = operator self" "evo_operator self' = evo_operator self"
    by (subst st, simp)+
  from l0 w w' idem evs same show ?thesis by blast
qed

text \<open>
  The example conversion, a construction from one operator of each kind, and the events
  of a circuit construction followed by a run.
\<close>

theorem operators_canonical_once_witness:
  "init example_collaborators (Other 2) (Some ''zero'') (Canonical 2) 1 2 ''trotter'' 1 =
     (Inr \<lparr> operator = 2, initial_state = Some ''zero'', evo_operator = 2, evo_time = 1,
             num_time_slices = 2, expansion_mode = ''trotter'', expansion_order = 1,
             ret = Map.empty \<rparr>,
      [ToWeightedPauliOperator (Other 2), ToWeightedPauliOperator (Canonical 2)])
   \<and> to_weighted_pauli_operator example_collaborators (Other 2) = Inr 2
   \<and> to_weighted_pauli_operator example_collaborators (Canonical 2) = Inr 2
   \<and> filter is_conversion
        (snd (snd (perform example_collaborators
           \<lparr> operator = 2, initial_state = Some ''zero'', evo_operator = 2, evo_time = 1,
             num_time_slices = 2, expansion_mode = ''trotter'', expansion_order = 1,
             ret = Map.empty \<rparr>
           [ConstructCircuit, Run True]))) = []"
proof -
  let ?self = "\<lparr> operator = 2, initial_state = Some ''zero'', evo_operator = 2, evo_time = 1,
         num_time_slices = 2, expansion_mode = ''trotter'', expansion_order = 1,
         ret = Map.empty \<rparr> :: (int, string option, int) eoh"
  have cv: "to_weighted_pauli_operator example_collaborators =
              op_converter_to_weighted_pauli_operator
                (\<lambda>x. if x = 0 then Inl (AquaError ''Unsupported type'') else Inr (int x))"
    by (simp add: example_collaborators_def)
  have it: "init example_collaborators (Other 2) (Some ''zero'') (Canonical 2) 1 2 ''trotter'' 1 =
     (Inr ?self, [ToWeightedPauliOperator (Other 2), ToWeightedPauliOperator (Canonical 2)])"
    by (simp add: example_simps)
  obtain replies self' l where
    pf: "perform example_collaborators ?self [ConstructCircuit, Run True] = (replies, self', l)"
    by (cases "perform example_collaborators ?self [ConstructCircuit, Run True]") auto
  from operators_canonical_once [OF cv it pf]
  have "\<forall>ev \<in> set l. \<not> is_conversion ev"
    and "to_weighted_pauli_operator example_collaborators (Other 2) = Inr 2"
    and "to_weighted_pauli_operator example_collaborators (Canonical 2) = Inr 2"
    by simp_all
  with it pf show ?thesis by (simp add: filter_empty_conv)
qed

section \<open>Failures of collaborators\<close>

text \<open>
  Claim C7. In \<open>construct_circuit\<close> and in \<open>run\<close>, every invocation before the last
  returned normally, and the method raises \<open>e\<close> if and only if its last invocation
  raised \<open>e\<close>: the exception of a collaborator ends the method at once and is the
  method's exception, unchanged; nothing is invoked again after it. A run that raises
  leaves the instance unchanged. Construction raises either the exception of
  \<open>validate_eoh\<close>, with no invocation made, or that of its last invocation.
\<close>

theorem collaborator_failure_propagates:
  assumes cc: "construct_circuit env self = (rc, lc)"
      and rn: "run env qi self = (rr, self', lr)"
      and it: "init env op st evo t n m k = (r0, l0)"
  shows "(lc \<noteq> [] \<and> (\<forall>ev \<in> set (butlast lc). failure env ev = None)
            \<and> (\<forall>e. rc = Inl e \<longleftrightarrow> failure env (last lc) = Some e))
       \<and> (lr \<noteq> [] \<and> (\<forall>ev \<in> set (butlast lr). failure env ev = None)
            \<and> (\<forall>e. rr = Inl e \<longleftrightarrow> failure env (last lr) = Some e)
            \<and> ((\<exists>e. rr = Inl e) \<longrightarrow> self' = self))
       \<and> ((\<forall>ev \<in> set (butlast l0). failure env ev = None)
            \<and> (\<forall>e. r0 = Inl e \<longleftrightarrow>
                  (if l0 = [] then validate_eoh t n m k = Inl e
                   else failure env (last l0) = Some e)))"
proof -
  have c1: "lc \<noteq> []" using cc by (rule construct_circuit_nonempty)
  have c2: "\<forall>ev \<in> set (butlast lc). failure env ev = None"
    by (rule ballI) (rule construct_circuit_before_last [OF cc])
  have c3: "\<forall>e. rc = Inl e \<longleftrightarrow> failure env (last lc) = Some e"
    by (rule allI) (rule construct_circuit_last [OF cc])
  have r1: "lr \<noteq> []" using rn by (rule run_nonempty)
  have r2: "\<forall>ev \<in> set (butlast lr). failure env ev = None"
    by (rule ballI) (rule run_before_last [OF rn])
  have r3: "\<forall>e. rr = Inl e \<longleftrightarrow> failure env (last lr) = Some e"
    by (rule allI) (rule run_last [OF rn])
  have r4: "(\<exists>e. rr = Inl e) \<longrightarrow> self' = self"
    using rn by (auto dest: run_raises_unchanged)
  have i1: "\<forall>ev \<in> set (butlast l0). failure env ev = None"
    by (rule ballI) (rule init_before_last [OF it])
  have i2: "\<forall>e. r0 = Inl e \<longleftrightarrow>
          (if l0 = [] then validate_eoh t n m k = Inl e else failure env (last l0) = Some e)"
    by (rule allI) (rule init_last [OF it])
  from c1 c2 c3 r1 r2 r3 r4 i1 i2 show ?thesis by blast
qed

text \<open>
  With a one-qubit observable and a two-qubit evolution operator the example evolution
  routine raises; \<open>construct_circuit\<close> ends there with that exception.
\<close>

theorem collaborator_failure_propagates_witness:
  "construct_circuit example_collaborators
      \<lparr> operator = 1, initial_state = Some ''zero'', evo_operator = 2, evo_time = 1,
        num_time_slices = 1, expansion_mode = ''trotter'', expansion_order = 1,
        ret = Map.empty \<rparr>
     = (Inl (OtherError ''size mismatch''),
        [NewQuantumRegister 1 ''q'',
         InitialStateConstructCircuit (Some ''zero'') ''circuit'' (1, ''q''),
         Evolve 2 1 1 (1, ''q'') ''trotter'' 1])
   \<and> failure example_collaborators (Evolve 2 1 1 (1, ''q'') ''trotter'' 1)
       = Some (OtherError ''size mismatch'')
   \<and> failure example_collaborators (NewQuantumRegister 1 ''q'') = None
   \<and> failure example_collaborators
         (InitialStateConstructCircuit (Some ''zero'') ''circuit'' (1, ''q'')) = None"
proof -
  let ?inst = "\<lparr> operator = 1, initial_state = Some ''zero'', evo_operator = 2, evo_time = 1,
        num_time_slices = 1, expansion_mode = ''trotter'', expansion_order = 1,
        ret = Map.empty \<rparr> :: (int, string option, int) eoh"
  let ?l = "[NewQuantumRegister 1 ''q'',
         InitialStateConstructCircuit (Some ''zero'') ''circuit'' (1, ''q''),
         Evolve 2 1 1 (1, ''q'') ''trotter'' 1]"
  have cc: "construct_circuit example_collaborators ?inst =
              (Inl (OtherError ''size mismatch''), ?l)"
    by (simp add: example_simps)
  have rn: "run example_collaborators True ?inst =
              (Inl (OtherError ''size mismatch''), ?inst, ?l)"
    by (simp add: example_simps)
  have it: "init example_collaborators (Canonical 1) (Some ''zero'') (Other 2) 1 1 ''trotter'' 1
              = (Inr ?inst,
                 [ToWeightedPauliOperator (Canonical 1), ToWeightedPauliOperator (Other 2)])"
    by (simp add: example_simps)
  from collaborator_failure_propagates [OF cc rn it] cc
  show ?thesis by auto
qed

section \<open>The result summary\<close>



section \<open>Qubit counts\<close>

text \<open>
  Claim C9. Construction does not depend on any qubit count. \<open>construct_circuit\<close> reads
  the qubit count of the observable operator only: its first invocation allocates the
  register with that count, and changing the count reported for any other operator
  changes nothing. It raises exactly when its last invocation of a collaborator raised,
  with that exception.
\<close>

theorem qubit_counts_not_compared:
  "init (env\<lparr> num_qubits := f \<rparr>) op st evo t n m k = init env op st evo t n m k
   \<and> (f (operator self) = num_qubits env (operator self) \<longrightarrow>
        construct_circuit (env\<lparr> num_qubits := f \<rparr>) self = construct_circuit env self)
   \<and> (\<exists>rest. snd (construct_circuit env self) =
                NewQuantumRegister (num_qubits env (operator self)) ''q'' # rest)
   \<and> (\<forall>e. fst (construct_circuit env self) = Inl e \<longleftrightarrow>
            failure env (last (snd (construct_circuit env self))) = Some e)"
proof (intro conjI)
  show "init (env\<lparr> num_qubits := f \<rparr>) op st evo t n m k = init env op st evo t n m k"
    by (simp add: init_def split: sum.splits)
  show "f (operator self) = num_qubits env (operator self) \<longrightarrow>
        construct_circuit (env\<lparr> num_qubits := f \<rparr>) self = construct_circuit env self"
    by (simp add: construct_circuit_def)
  show "\<exists>rest. snd (construct_circuit env self) =
                NewQuantumRegister (num_qubits env (operator self)) ''q'' # rest"
    by (simp add: construct_circuit_unfold split: sum.splits)
  show "\<forall>e. fst (construct_circuit env self) = Inl e \<longleftrightarrow>
            failure env (last (snd (construct_circuit env self))) = Some e"
    using construct_circuit_last [of env self "fst (construct_circuit env self)"
        "snd (construct_circuit env self)"]
    by simp
qed

text \<open>
  An observable on one qubit and an evolution operator on two: construction succeeds, the
  register has size one, and the example evolution routine is the one that raises.
\<close>

theorem qubit_counts_not_compared_witness:
  "init example_collaborators (Canonical 1) (Some ''zero'') (Canonical 2) 1 1 ''trotter'' 1 =
     (Inr \<lparr> operator = 1, initial_state = Some ''zero'', evo_operator = 2, evo_time = 1,
             num_time_slices = 1, expansion_mode = ''trotter'', expansion_order = 1,
             ret = Map.empty \<rparr>,
      [ToWeightedPauliOperator (Canonical 1), ToWeightedPauliOperator (Canonical 2)])
   \<and> construct_circuit (example_collaborators\<lparr> num_qubits := (\<lambda>w. if w = 2 then 1 else w) \<rparr>)
       \<lparr> operator = 1, initial_state = Some ''zero'', evo_operator = 2, evo_time = 1,
         num_time_slices = 1, expansion_mode = ''trotter'', expansion_order = 1,
         ret = Map.empty \<rparr> =
     construct_circuit example_collaborators
       \<lparr> operator = 1, initial_state = Some ''zero'', evo_operator = 2, evo_time = 1,
         num_time_slices = 1, expansion_mode = ''trotter'', expansion_order = 1,
         ret = Map.empty \<rparr>
   \<and> construct_circuit example_collaborators
       \<lparr> operator = 1, initial_state = Some ''zero'', evo_operator = 2, evo_time = 1,
         num_time_slices = 1, expansion_mode = ''trotter'', expansion_order = 1,
         ret = Map.empty \<rparr> =
     (Inl (OtherError ''size mismatch''),
      [NewQuantumRegister 1 ''q'',
       InitialStateConstructCircuit (Some ''zero'') ''circuit'' (1, ''q''),
       Evolve 2 1 1 (1, ''q'') ''trotter'' 1])"
proof -
  let ?self = "\<lparr> operator = 1, initial_state = Some ''zero'', evo_operator = 2, evo_time = 1,
         num_time_slices = 1, expansion_mode = ''trotter'', expansion_order = 1,
         ret = Map.empty \<rparr> :: (int, string option, int) eoh"
  have it: "init example_collaborators (Canonical 1) (Some ''zero'') (Canonical 2) 1 1 ''trotter'' 1 =
     (Inr ?self, [ToWeightedPauliOperator (Canonical 1), ToWeightedPauliOperator (Canonical 2)])"
    by (simp add: example_simps)
  have cc: "construct_circuit example_collaborators ?self =
     (Inl (OtherError ''size mismatch''),
      [NewQuantumRegister 1 ''q'',
       InitialStateConstructCircuit (Some ''zero'') ''circuit'' (1, ''q''),
       Evolve 2 1 1 (1, ''q'') ''trotter'' 1])"
    by (simp add: example_simps)
  have same: "(\<lambda>w. if w = 2 then 1 else w) (operator ?self) =
                num_qubits example_collaborators (operator ?self)"
    by (simp add: example_collaborators_def)
  from qubit_counts_not_compared
         [where env = example_collaborators and f = "\<lambda>w. if w = 2 then 1 else w"
            and self = ?self]
       same it cc
  show ?thesis by simp
qed

section \<open>The preparer\<close>

text \<open>
  Claim C10. When the four parameters are valid and both conversions succeed,
  construction succeeds for every preparer, stores it as given and invokes the two
  conversions only. Its outcome is the same whatever the preparer's method, the
  backend's mode and the backend's execution would do. A preparer whose method raises
  makes \<open>construct_circuit\<close> and \<open>run\<close> raise that exception, after the register has been
  allocated.
\<close>

theorem preparer_not_inspected:
  assumes ok: "validate_eoh t n m k = Inr ()"
      and w: "to_weighted_pauli_operator env op = Inr w"
      and w': "to_weighted_pauli_operator env evo = Inr w'"
  shows "(\<forall>st. init env op st evo t n m k =
            (Inr \<lparr> operator = w, initial_state = st, evo_operator = w', evo_time = t,
                    num_time_slices = n, expansion_mode = m, expansion_order = k,
                    ret = Map.empty \<rparr>,
             [ToWeightedPauliOperator op, ToWeightedPauliOperator evo]))
       \<and> (\<forall>st g h x.
            init (env\<lparr> initial_state_construct_circuit := g, is_statevector := h,
                        execute := x \<rparr>) op st evo t n m k
            = init env op st evo t n m k)
       \<and> (\<forall>st self l0 e regs qi.
            init env op st evo t n m k = (Inr self, l0)
          \<and> QuantumRegister env (num_qubits env w) ''q'' = Inr regs
          \<and> initial_state_construct_circuit env st ''circuit'' regs = Inl e
          \<longrightarrow> construct_circuit env self =
                (Inl e, [NewQuantumRegister (num_qubits env w) ''q'',
                         InitialStateConstructCircuit st ''circuit'' regs])
            \<and> run env qi self =
                (Inl e, self, [NewQuantumRegister (num_qubits env w) ''q'',
                               InitialStateConstructCircuit st ''circuit'' regs]))"
proof (intro conjI allI impI)
  fix st
  from init_valid [OF ok, of env op st evo] w w'
  show "init env op st evo t n m k =
            (Inr \<lparr> operator = w, initial_state = st, evo_operator = w', evo_time = t,
                    num_time_slices = n, expansion_mode = m, expansion_order = k,
                    ret = Map.empty \<rparr>,
             [ToWeightedPauliOperator op, ToWeightedPauliOperator evo])"
    by simp
next
  fix st g h x
  show "init (env\<lparr> initial_state_construct_circuit := g, is_statevector := h,
                        execute := x \<rparr>) op st evo t n m k
            = init env op st evo t n m k"
    by (simp add: init_def split: sum.splits)
next
  fix st self l0 e regs qi
  assume a: "init env op st evo t n m k = (Inr self, l0)
          \<and> QuantumRegister env (num_qubits env w) ''q'' = Inr regs
          \<and> initial_state_construct_circuit env st ''circuit'' regs = Inl e"
  from init_valid [OF ok, of env op st evo] w w' a
  have self: "self = \<lparr> operator = w, initial_state = st, evo_operator = w', evo_time = t,
                    num_time_slices = n, expansion_mode = m, expansion_order = k,
                    ret = Map.empty \<rparr>"
    by simp
  from a show cc: "construct_circuit env self =
                (Inl e, [NewQuantumRegister (num_qubits env w) ''q'',
                         InitialStateConstructCircuit st ''circuit'' regs])"
    by (simp add: construct_circuit_unfold self)
  then show "run env qi self =
                (Inl e, self, [NewQuantumRegister (num_qubits env w) ''q'',
                               InitialStateConstructCircuit st ''circuit'' regs])"
    by (simp add: run_unfold)
qed

text \<open>
  Construction with the unusable example preparer succeeds; the first
  \<open>construct_circuit\<close> or \<open>run\<close> raises.
\<close>

theorem preparer_not_inspected_witness:
  "validate_eoh 1 1 ''trotter'' 1 = Inr ()
   \<and> init example_collaborators (Canonical 2) None (Canonical 2) 1 1 ''trotter'' 1 =
     (Inr \<lparr> operator = 2, initial_state = None, evo_operator = 2, evo_time = 1,
             num_time_slices = 1, expansion_mode = ''trotter'', expansion_order = 1,
             ret = Map.empty \<rparr>,
      [ToWeightedPauliOperator (Canonical 2), ToWeightedPauliOperator (Canonical 2)])
   \<and> construct_circuit example_collaborators
       \<lparr> operator = 2, initial_state = None, evo_operator = 2, evo_time = 1,
         num_time_slices = 1, expansion_mode = ''trotter'', expansion_order = 1,
         ret = Map.empty \<rparr> =
     (Inl (OtherError ''AttributeError''),
      [NewQuantumRegister 2 ''q'', InitialStateConstructCircuit None ''circuit'' (2, ''q'')])
   \<and> fst (run example_collaborators True
       \<lparr> operator = 2, initial_state = None, evo_operator = 2, evo_time = 1,
         num_time_slices = 1, expansion_mode = ''trotter'', expansion_order = 1,
         ret = Map.empty \<rparr>) = Inl (OtherError ''AttributeError'')"
proof -
  have ok: "validate_eoh 1 1 ''trotter'' 1 = Inr ()"
    by (simp add: validate_eoh_def)
  have w: "to_weighted_pauli_operator example_collaborators (Canonical 2) = Inr 2"
    by (simp add: example_collaborators_def op_converter_to_weighted_pauli_operator_def)
  have reg: "QuantumRegister example_collaborators (num_qubits example_collaborators 2) ''q''
               = Inr (2, ''q'')"
    by (simp add: example_collaborators_def)
  have bad: "initial_state_construct_circuit example_collaborators None ''circuit'' (2, ''q'')
               = Inl (OtherError ''AttributeError'')"
    by (simp add: example_collaborators_def)
  have nq: "num_qubits example_collaborators 2 = 2"
    by (simp add: example_collaborators_def)
  from preparer_not_inspected [OF ok w w] reg bad nq ok
  show ?thesis by simp
qed

end
